theory Spec2Isabelle
  imports Complex_Main
begin

section \<open>Data model (src/App.tsx, TYPES)\<close>

text \<open>
  The interfaces of the source become records. A JavaScript string is a \<open>string\<close>,
  the slider scores (produced by \<open>parseInt\<close>) are integers, a \<open>Date\<close> is the number
  of milliseconds since the epoch, and \<open>string | null\<close> is a \<open>string option\<close>.
  The field \<open>date\<close> of \<open>MoodLog\<close> is \<open>mdate\<close> here, to keep it apart from the
  field \<open>date\<close> of \<open>DailyLog\<close>.
\<close>

record Habit =
  id :: string
  icon :: string
  name :: string
  active :: bool

record DailyLog =
  date :: string
  habitId :: string
  completed :: bool

record MoodLog =
  mdate :: string
  moodScore :: int
  motivationScore :: int

datatype View = View_today | View_calendar | View_stats | View_settings

type_synonym Date = int

record AppState =
  habits :: "Habit list"
  dailyLogs :: "DailyLog list"
  moodLogs :: "MoodLog list"
  currentView :: View
  currentMonth :: Date
  isLoading :: bool
  isSyncing :: bool
  error :: "string option"

record Config =
  spreadsheetId :: string
  apiKey :: string

text \<open>The payload of \<open>SET_DATA\<close> and the value returned by \<open>fetchData\<close>.\<close>

record Data =
  d_habits :: "Habit list"
  d_dailyLogs :: "DailyLog list"
  d_moodLogs :: "MoodLog list"

section \<open>The reducer\<close>

datatype Action =
    SET_LOADING bool
  | SET_SYNCING bool
  | SET_ERROR "string option"
  | SET_DATA Data
  | SET_VIEW View
  | SET_MONTH Date
  | TOGGLE_HABIT string string
  | UPDATE_MOOD MoodLog

text \<open>
  \<open>Array.prototype.find\<close> is \<^const>\<open>List.find\<close> (first match or nothing),
  \<open>filter\<close> is \<^const>\<open>filter\<close> and \<open>push\<close> appends at the end. An object is
  truthy, so \<open>existingLog ? !existingLog.completed : true\<close> is a case on the option.
\<close>

fun reducer :: "AppState \<Rightarrow> Action \<Rightarrow> AppState" where
  "reducer state (SET_LOADING payload) = state\<lparr>isLoading := payload\<rparr>"
| "reducer state (SET_SYNCING payload) = state\<lparr>isSyncing := payload\<rparr>"
| "reducer state (SET_ERROR payload) = state\<lparr>error := payload\<rparr>"
| "reducer state (SET_DATA payload) =
     state\<lparr>habits := d_habits payload, dailyLogs := d_dailyLogs payload,
           moodLogs := d_moodLogs payload, isLoading := False\<rparr>"
| "reducer state (SET_VIEW payload) = state\<lparr>currentView := payload\<rparr>"
| "reducer state (SET_MONTH payload) = state\<lparr>currentMonth := payload\<rparr>"
| "reducer state (TOGGLE_HABIT dt hid) =
     (let existingLog = List.find (\<lambda>l. date l = dt \<and> habitId l = hid) (dailyLogs state);
          completed = (case existingLog of Some l \<Rightarrow> \<not> completed l | None \<Rightarrow> True);
          newLogs = filter (\<lambda>l. \<not> (date l = dt \<and> habitId l = hid)) (dailyLogs state);
          newLogs = newLogs @ [\<lparr>date = dt, habitId = hid, completed = completed\<rparr>]
      in state\<lparr>dailyLogs := newLogs\<rparr>)"
| "reducer state (UPDATE_MOOD payload) =
     (let newMoods = filter (\<lambda>l. mdate l \<noteq> mdate payload) (moodLogs state);
          newMoods = newMoods @ [payload]
      in state\<lparr>moodLogs := newMoods\<rparr>)"

text \<open>\<open>initialState\<close>; \<open>now\<close> is the \<open>new Date()\<close> of the moment the module loads.\<close>

definition initialState :: "Date \<Rightarrow> AppState" where
  "initialState now =
     \<lparr>habits = [], dailyLogs = [], moodLogs = [], currentView = View_today,
      currentMonth = now, isLoading = True, isSyncing = False, error = None\<rparr>"

text \<open>Dispatching a list of actions in order.\<close>

definition dispatchAll :: "AppState \<Rightarrow> Action list \<Rightarrow> AppState" where
  "dispatchAll state acts = foldl reducer state acts"

text \<open>The records of a collection that carry a given logical key.\<close>

definition dailyFor :: "string \<Rightarrow> string \<Rightarrow> DailyLog list \<Rightarrow> DailyLog list" where
  "dailyFor dt hid logs = filter (\<lambda>l. date l = dt \<and> habitId l = hid) logs"

definition moodFor :: "string \<Rightarrow> MoodLog list \<Rightarrow> MoodLog list" where
  "moodFor dt logs = filter (\<lambda>l. mdate l = dt) logs"

section \<open>The storage hook (\<open>useLocalStorage\<close>)\<close>

text \<open>
  \<open>window.localStorage\<close> is either unavailable (every access throws) or a table from keys
  to stored text. \<open>getItem\<close> answers \<open>null\<close> for a missing key. \<open>JSON.parse\<close> is the
  platform's: it is a parameter \<open>parse\<close> that either throws or yields a value.
\<close>

datatype exn = SecurityError | SyntaxError

datatype LocalStorage = Unavailable | Items "string \<rightharpoonup> string"

fun getItem :: "LocalStorage \<Rightarrow> string \<Rightarrow> exn + string option" where
  "getItem Unavailable key = Inl SecurityError"
| "getItem (Items m) key = Inr (m key)"

text \<open>
  The body of the \<open>try\<close> block of the initializer. The empty string is falsy, so
  \<open>item ? JSON.parse(item) : initialValue\<close> parses non-empty text only.
\<close>

definition useLocalStorage_try ::
  "(string \<Rightarrow> exn + 'a) \<Rightarrow> LocalStorage \<Rightarrow> string \<Rightarrow> 'a \<Rightarrow> exn + 'a" where
  "useLocalStorage_try parse storage key initialValue =
     (case getItem storage key of
        Inl e \<Rightarrow> Inl e
      | Inr stored \<Rightarrow>
          (case stored of
             None \<Rightarrow> Inr initialValue
           | Some item \<Rightarrow> if item \<noteq> [] then parse item else Inr initialValue))"

text \<open>The initializer: the \<open>catch\<close> block answers \<open>initialValue\<close> for every exception.\<close>

definition useLocalStorage_init ::
  "(string \<Rightarrow> exn + 'a) \<Rightarrow> LocalStorage \<Rightarrow> string \<Rightarrow> 'a \<Rightarrow> exn + 'a" where
  "useLocalStorage_init parse storage key initialValue =
     (case useLocalStorage_try parse storage key initialValue of
        Inl e \<Rightarrow> Inr initialValue
      | Inr v \<Rightarrow> Inr v)"

text \<open>A fragment of \<open>JSON.parse\<close>, on the two boolean literals, for concrete runs.\<close>

definition parse_bool :: "string \<Rightarrow> exn + bool" where
  "parse_bool item =
     (if item = ''true'' then Inr True
      else if item = ''false'' then Inr False
      else Inl SyntaxError)"

section \<open>The sheets hook (\<open>useGoogleSheets\<close>)\<close>

text \<open>
  The hook's state: the three local collections and its three flags. Its functions are
  asynchronous; each is modelled by the value it resolves to, the hook state once its
  timers have fired, and the list of effects in the order they happen. The effect
  \<open>NetworkRequest\<close> stands for a call of \<open>fetch\<close>.
\<close>

record Hook =
  localHabits :: "Habit list"
  localDailyLogs :: "DailyLog list"
  localMoodLogs :: "MoodLog list"
  hookLoading :: bool
  hookSyncing :: bool
  hookError :: "string option"

datatype Event =
    SetIsLoading bool
  | SetIsSyncing bool
  | SetError "string option"
  | Timer nat
  | NetworkRequest string

text \<open>\<open>!!s\<close> on a string: every string but the one of length 0 is truthy.\<close>

definition truthy :: "string \<Rightarrow> bool" where
  "truthy s \<longleftrightarrow> length s \<noteq> 0"

definition hasConfig :: "Config \<Rightarrow> bool" where
  "hasConfig config \<longleftrightarrow> truthy (apiKey config) \<and> truthy (spreadsheetId config)"

fun isNetworkRequest :: "Event \<Rightarrow> bool" where
  "isNetworkRequest (NetworkRequest url) = True"
| "isNetworkRequest e = False"

definition hookData :: "Hook \<Rightarrow> Data" where
  "hookData h = \<lparr>d_habits = localHabits h, d_dailyLogs = localDailyLogs h,
                 d_moodLogs = localMoodLogs h\<rparr>"

text \<open>
  The \<open>try\<close> block of \<open>fetchData\<close>: the requests are commented out in the source, what
  is left waits 800 ms and cannot throw.
\<close>

definition simulateFetch :: "Config \<Rightarrow> (string + unit) \<times> Event list" where
  "simulateFetch config = (Inr (), [Timer 800])"

definition fetchData :: "Config \<Rightarrow> Hook \<Rightarrow> Data \<times> Hook \<times> Event list" where
  "fetchData config h =
     (let h1 = h\<lparr>hookLoading := True, hookError := None\<rparr>;
          ev1 = [SetIsLoading True, SetError None]
      in if \<not> hasConfig config then
           (hookData h, h1\<lparr>hookLoading := False\<rparr>, ev1 @ [Timer 500, SetIsLoading False])
         else
           (case simulateFetch config of
              (Inr u, ev2) \<Rightarrow>
                (hookData h, h1\<lparr>hookLoading := False\<rparr>, ev1 @ ev2 @ [SetIsLoading False])
            | (Inl message, ev2) \<Rightarrow>
                (let msg = (if message \<noteq> [] then message else ''Error syncing'')
                 in (hookData h, h1\<lparr>hookError := Some msg, hookLoading := False\<rparr>,
                     ev1 @ ev2 @ [SetError (Some msg), SetIsLoading False]))))"

text \<open>\<open>findIndex\<close>: the index of the first element that satisfies the test, or \<open>-1\<close>.\<close>

fun findIndex :: "('a \<Rightarrow> bool) \<Rightarrow> 'a list \<Rightarrow> int" where
  "findIndex P [] = - 1"
| "findIndex P (x # xs) =
     (if P x then 0 else (let i = findIndex P xs in if i < 0 then - 1 else i + 1))"

text \<open>
  The two upserts. \<open>[...localDailyLogs]\<close> copies the list; the assignment at
  \<open>existingIndex\<close> is a list update, within range by the test before it.
\<close>

definition updateDailyLog ::
  "Config \<Rightarrow> Hook \<Rightarrow> string \<Rightarrow> string \<Rightarrow> bool \<Rightarrow> Hook \<times> Event list" where
  "updateDailyLog config h dt hid c =
     (let existingIndex = findIndex (\<lambda>l. date l = dt \<and> habitId l = hid) (localDailyLogs h);
          newLogs = localDailyLogs h;
          newLogs = (if existingIndex \<ge> 0
                     then newLogs[nat existingIndex := \<lparr>date = dt, habitId = hid, completed = c\<rparr>]
                     else newLogs @ [\<lparr>date = dt, habitId = hid, completed = c\<rparr>]);
          h1 = h\<lparr>localDailyLogs := newLogs\<rparr>
      in if hasConfig config
         then (h1\<lparr>hookSyncing := False\<rparr>, [SetIsSyncing True, Timer 500, SetIsSyncing False])
         else (h1, []))"

definition updateMoodLog ::
  "Config \<Rightarrow> Hook \<Rightarrow> string \<Rightarrow> int \<Rightarrow> int \<Rightarrow> Hook \<times> Event list" where
  "updateMoodLog config h dt ms mo =
     (let existingIndex = findIndex (\<lambda>l. mdate l = dt) (localMoodLogs h);
          newLogs = localMoodLogs h;
          newLogs = (if existingIndex \<ge> 0
                     then newLogs[nat existingIndex :=
                            \<lparr>mdate = dt, moodScore = ms, motivationScore = mo\<rparr>]
                     else newLogs @ [\<lparr>mdate = dt, moodScore = ms, motivationScore = mo\<rparr>]);
          h1 = h\<lparr>localMoodLogs := newLogs\<rparr>
      in if hasConfig config
         then (h1\<lparr>hookSyncing := False\<rparr>, [SetIsSyncing True, Timer 500, SetIsSyncing False])
         else (h1, []))"

section \<open>The handlers of \<open>App\<close>\<close>

text \<open>
  A handler reads the state of the render it belongs to, dispatches to the reducer and
  calls the hook. \<open>tdy\<close> is \<open>toISODate(new Date())\<close>, the text of the current day.
\<close>

datatype MoodKind = Kind_mood | Kind_motivation

definition handleToggleHabit ::
  "Config \<Rightarrow> string \<Rightarrow> string \<Rightarrow> AppState \<times> Hook \<Rightarrow> AppState \<times> Hook" where
  "handleToggleHabit config tdy hid app =
     (let state = fst app;
          isCompleted = list_ex (\<lambda>l. date l = tdy \<and> habitId l = hid \<and> completed l)
                          (dailyLogs state)
      in (reducer state (TOGGLE_HABIT tdy hid),
          fst (updateDailyLog config (snd app) tdy hid (\<not> isCompleted))))"

definition handleMoodChange ::
  "Config \<Rightarrow> string \<Rightarrow> MoodKind \<Rightarrow> int \<Rightarrow> AppState \<times> Hook \<Rightarrow> AppState \<times> Hook" where
  "handleMoodChange config tdy type val app =
     (let state = fst app;
          currentMood = (case List.find (\<lambda>l. mdate l = tdy) (moodLogs state) of
                           Some l \<Rightarrow> l
                         | None \<Rightarrow> \<lparr>mdate = tdy, moodScore = 5, motivationScore = 5\<rparr>);
          newMood = (if type = Kind_mood then currentMood\<lparr>moodScore := val\<rparr>
                     else currentMood\<lparr>motivationScore := val\<rparr>)
      in (reducer state (UPDATE_MOOD newMood),
          fst (updateMoodLog config (snd app) tdy (moodScore newMood) (motivationScore newMood))))"

text \<open>
  The effect of \<open>App\<close> that follows a render: \<open>dispatch SET_DATA\<close> with the hook's
  \<open>data\<close>. The hook builds \<open>data\<close> anew on every render, so the effect runs after every
  handler, and the collections of the state become those of the store. The second
  effect dispatches \<open>SET_LOADING\<close> when the hook's loading flag has changed; it runs
  after the first render, and no handler changes that flag.
\<close>

definition syncEffect :: "AppState \<times> Hook \<Rightarrow> AppState \<times> Hook" where
  "syncEffect app = (reducer (fst app) (SET_DATA (hookData (snd app))), snd app)"

definition mounted :: "Date \<Rightarrow> Hook \<Rightarrow> AppState \<times> Hook" where
  "mounted now h =
     (let app = syncEffect (initialState now, h)
      in (reducer (fst app) (SET_LOADING (hookLoading h)), snd app))"

text \<open>One slider change as the app goes through it: the handler, then the effect.\<close>

definition moodWrite ::
  "Config \<Rightarrow> string \<Rightarrow> MoodKind \<Rightarrow> int \<Rightarrow> AppState \<times> Hook \<Rightarrow> AppState \<times> Hook" where
  "moodWrite config tdy type val app = syncEffect (handleMoodChange config tdy type val app)"

text \<open>A sequence of slider changes, each made in the app the previous one left.\<close>

definition setMoodAll ::
  "Config \<Rightarrow> string \<Rightarrow> (MoodKind \<times> int) list \<Rightarrow> AppState \<times> Hook \<Rightarrow> AppState \<times> Hook" where
  "setMoodAll config tdy ws app =
     foldl (\<lambda>a w. moodWrite config tdy (fst w) (snd w) a) app ws"

text \<open>The score the sliders show for a day: the first stored record, or 5 and 5.\<close>

definition currentMoodOf :: "string \<Rightarrow> MoodLog list \<Rightarrow> MoodLog" where
  "currentMoodOf tdy logs =
     (case List.find (\<lambda>l. mdate l = tdy) logs of
        Some l \<Rightarrow> l
      | None \<Rightarrow> \<lparr>mdate = tdy, moodScore = 5, motivationScore = 5\<rparr>)"

text \<open>The most recent value written to a field by a sequence of writes, if any.\<close>

definition lastWrite :: "MoodKind \<Rightarrow> (MoodKind \<times> int) list \<Rightarrow> int option" where
  "lastWrite k ws =
     (let vs = map snd (filter (\<lambda>w. fst w = k) ws)
      in if vs = [] then None else Some (last vs))"

section \<open>Derived views\<close>

text \<open>
  A JavaScript number that comes out of dividing two array lengths: a finite value,
  \<open>Infinity\<close> (\<open>n / 0\<close> for \<open>n > 0\<close>) or \<open>NaN\<close> (\<open>0 / 0\<close>). Finite values are taken
  as exact reals. Every comparison with \<open>NaN\<close> is false.
\<close>

datatype number = Finite real | PosInfinity | NaN

definition js_div :: "nat \<Rightarrow> nat \<Rightarrow> number" where
  "js_div a b =
     (if b = 0 then (if a = 0 then NaN else PosInfinity) else Finite (real a / real b))"

fun js_times100 :: "number \<Rightarrow> number" where
  "js_times100 (Finite r) = Finite (r * 100)"
| "js_times100 PosInfinity = PosInfinity"
| "js_times100 NaN = NaN"

fun js_ge :: "number \<Rightarrow> real \<Rightarrow> bool" where
  "js_ge (Finite r) c \<longleftrightarrow> r \<ge> c"
| "js_ge PosInfinity c \<longleftrightarrow> True"
| "js_ge NaN c \<longleftrightarrow> False"

fun js_gt :: "number \<Rightarrow> real \<Rightarrow> bool" where
  "js_gt (Finite r) c \<longleftrightarrow> r > c"
| "js_gt PosInfinity c \<longleftrightarrow> True"
| "js_gt NaN c \<longleftrightarrow> False"

text \<open>\<open>TodayView\<close>: the completion rate of the current day.\<close>

definition completionRate :: "AppState \<Rightarrow> string \<Rightarrow> number" where
  "completionRate state tdy =
     (let todayLogs = filter (\<lambda>l. date l = tdy \<and> completed l) (dailyLogs state)
      in if length (habits state) = 0 then Finite 0
         else js_times100 (js_div (length todayLogs) (length (habits state))))"

text \<open>
  \<open>CalendarView.getDayData\<close>: the rate of the day whose text is \<open>day\<close> (the source
  builds it as \<open>iso\<close> from the displayed month and the day number with the platform's
  \<open>Date\<close>).
\<close>

definition getDayData :: "AppState \<Rightarrow> string \<Rightarrow> number" where
  "getDayData state day =
     (let logs = filter (\<lambda>l. date l = day \<and> completed l) (dailyLogs state)
      in if length (habits state) > 0
         then js_times100 (js_div (length logs) (length (habits state)))
         else Finite 0)"

text \<open>
  The calendar cell's tier, named after the colour the source picks:
  \<open>Tier_full\<close> is \<open>theme.colors.success\<close>, \<open>Tier_partial_high\<close> is
  \<open>theme.colors.warning\<close>, \<open>Tier_partial_low\<close> is \<open>theme.colors.textTertiary\<close> and
  \<open>Tier_empty\<close> is the initial \<open>theme.colors.bgTertiary\<close>.
\<close>

datatype Tier = Tier_full | Tier_partial_high | Tier_partial_low | Tier_empty

definition cellTier :: "number \<Rightarrow> Tier" where
  "cellTier rate =
     (if js_ge rate 80 then Tier_full
      else if js_ge rate 40 then Tier_partial_high
      else if js_gt rate 0 then Tier_partial_low
      else Tier_empty)"

text \<open>
  \<open>StatsView\<close>: the streak loop. \<open>isoOf i\<close> is the text of the day \<open>i\<close> days before
  the current one (the source computes it with \<open>setDate\<close> and \<open>toISODate\<close>).
\<close>

definition dayRate :: "(nat \<Rightarrow> string) \<Rightarrow> AppState \<Rightarrow> nat \<Rightarrow> number" where
  "dayRate isoOf state i =
     (let dayLogs = filter (\<lambda>l. date l = isoOf i \<and> completed l) (dailyLogs state)
      in if length (habits state) > 0
         then js_div (length dayLogs) (length (habits state))
         else Finite 0)"

function streakLoop :: "(nat \<Rightarrow> string) \<Rightarrow> AppState \<Rightarrow> nat \<Rightarrow> nat \<Rightarrow> nat" where
  "streakLoop isoOf state i streak =
     (if i < 365 then
        (if js_ge (dayRate isoOf state i) 1 then streakLoop isoOf state (i + 1) (streak + 1)
         else if i > 0 then streak
         else streakLoop isoOf state (i + 1) streak)
      else streak)"
  by pat_completeness auto
termination
  by (relation "measure (\<lambda>(isoOf, state, i, streak). 365 - i)") auto

declare streakLoop.simps [simp del]

definition stats :: "(nat \<Rightarrow> string) \<Rightarrow> AppState \<Rightarrow> nat \<times> nat" where
  "stats isoOf state =
     (let totalLogs = length (filter (\<lambda>l. completed l) (dailyLogs state));
          streak = streakLoop isoOf state 0 0
      in (totalLogs, streak))"

text \<open>
  Whether the loop counts day \<open>i\<close>, and the number of completed daily logs of a day.
\<close>

definition counted :: "(nat \<Rightarrow> string) \<Rightarrow> AppState \<Rightarrow> nat \<Rightarrow> bool" where
  "counted isoOf state i \<longleftrightarrow> js_ge (dayRate isoOf state i) 1"

definition completedOn :: "AppState \<Rightarrow> string \<Rightarrow> nat" where
  "completedOn state day =
     length (filter (\<lambda>l. date l = day \<and> completed l) (dailyLogs state))"

text \<open>One slider write applied to a record, and a sequence of writes applied to it.\<close>

definition written :: "MoodKind \<Rightarrow> int \<Rightarrow> MoodLog \<Rightarrow> MoodLog" where
  "written k v m = (if k = Kind_mood then m\<lparr>moodScore := v\<rparr> else m\<lparr>motivationScore := v\<rparr>)"

definition afterWrites :: "MoodLog \<Rightarrow> (MoodKind \<times> int) list \<Rightarrow> MoodLog" where
  "afterWrites cur ws =
     \<lparr>mdate = mdate cur,
      moodScore = (case lastWrite Kind_mood ws of Some v \<Rightarrow> v | None \<Rightarrow> moodScore cur),
      motivationScore =
        (case lastWrite Kind_motivation ws of Some v \<Rightarrow> v | None \<Rightarrow> motivationScore cur)\<rparr>"

section \<open>Concrete scenarios\<close>

text \<open>
  Three consecutive days, the current one first, two habits, and the states used to run
  the model: the streak scenario of the specification, a state reached from
  \<open>initialState\<close> by toggling a habit that is not in the catalog, and a store that holds
  two records for one key.
\<close>

definition exampleDays :: "nat \<Rightarrow> string" where
  "exampleDays i =
     (if i = 0 then ''2026-01-03'' else if i = 1 then ''2026-01-02''
      else if i = 2 then ''2026-01-01'' else ''2025-12-31'')"

definition habitA :: Habit where
  "habitA = \<lparr>id = ''A'', icon = ''a'', name = ''Habit A'', active = True\<rparr>"

definition habitB :: Habit where
  "habitB = \<lparr>id = ''B'', icon = ''b'', name = ''Habit B'', active = True\<rparr>"

definition streakScenario :: AppState where
  "streakScenario = dispatchAll (initialState 0)
     [SET_DATA \<lparr>d_habits = [habitA, habitB], d_dailyLogs = [], d_moodLogs = []\<rparr>,
      TOGGLE_HABIT ''2026-01-03'' ''A'', TOGGLE_HABIT ''2026-01-03'' ''B'',
      TOGGLE_HABIT ''2026-01-02'' ''A'', TOGGLE_HABIT ''2026-01-02'' ''B'',
      TOGGLE_HABIT ''2026-01-01'' ''A'']"

definition overfullState :: AppState where
  "overfullState = dispatchAll (initialState 0)
     [SET_DATA \<lparr>d_habits = [habitA], d_dailyLogs = [], d_moodLogs = []\<rparr>,
      TOGGLE_HABIT ''2026-01-03'' ''A'', TOGGLE_HABIT ''2026-01-03'' ''B'']"

definition localConfig :: Config where
  "localConfig = \<lparr>spreadsheetId = [], apiKey = []\<rparr>"

definition duplicateHook :: Hook where
  "duplicateHook =
     \<lparr>localHabits = [habitA],
      localDailyLogs = [\<lparr>date = ''2026-01-03'', habitId = ''A'', completed = False\<rparr>,
                        \<lparr>date = ''2026-01-03'', habitId = ''A'', completed = False\<rparr>],
      localMoodLogs = [\<lparr>mdate = ''2026-01-03'', moodScore = 4, motivationScore = 6\<rparr>,
                       \<lparr>mdate = ''2026-01-03'', moodScore = 2, motivationScore = 3\<rparr>],
      hookLoading = False, hookSyncing = False, hookError = None\<rparr>"

definition singleHook :: Hook where
  "singleHook =
     \<lparr>localHabits = [habitA],
      localDailyLogs = [],
      localMoodLogs = [\<lparr>mdate = ''2026-01-02'', moodScore = 9, motivationScore = 9\<rparr>,
                       \<lparr>mdate = ''2026-01-03'', moodScore = 4, motivationScore = 6\<rparr>],
      hookLoading = False, hookSyncing = False, hookError = None\<rparr>"

section \<open>Auxiliary facts\<close>

lemma find_filter_conv:
  "List.find P xs = (case filter P xs of [] \<Rightarrow> None | x # _ \<Rightarrow> Some x)"
  by (induction xs) auto

lemma toggle_dailyFor:
  "dailyFor dt hid (dailyLogs (reducer s (TOGGLE_HABIT dt hid))) =
     [\<lparr>date = dt, habitId = hid,
       completed = (case dailyFor dt hid (dailyLogs s) of [] \<Rightarrow> True
                    | l # _ \<Rightarrow> \<not> completed l)\<rparr>]"
  by (simp add: dailyFor_def find_filter_conv Let_def split: list.splits)

lemma update_mood_for: "moodFor (mdate m) (moodLogs (reducer s (UPDATE_MOOD m))) = [m]"
  by (simp add: moodFor_def Let_def)

lemma dispatchAll_snoc: "dispatchAll s (acts @ [a]) = reducer (dispatchAll s acts) a"
  by (simp add: dispatchAll_def)

text \<open>Replacing at the index found, or pushing, seen through the filter of the key.\<close>

lemma upsert_filter:
  "P v \<Longrightarrow>
   filter P (if findIndex P xs \<ge> 0 then xs[nat (findIndex P xs) := v] else xs @ [v]) =
     v # tl (filter P xs)"
proof (induction xs)
  case Nil
  then show ?case by simp
next
  case (Cons x xs)
  then show ?case
    by (cases "findIndex P xs \<ge> 0") (auto simp: Let_def nat_add_distrib)
qed

lemma updateDailyLog_local:
  "localDailyLogs (fst (updateDailyLog c h dt hid b)) =
     (if findIndex (\<lambda>l. date l = dt \<and> habitId l = hid) (localDailyLogs h) \<ge> 0
      then (localDailyLogs h)
             [nat (findIndex (\<lambda>l. date l = dt \<and> habitId l = hid) (localDailyLogs h)) :=
                \<lparr>date = dt, habitId = hid, completed = b\<rparr>]
      else localDailyLogs h @ [\<lparr>date = dt, habitId = hid, completed = b\<rparr>])"
  by (simp add: updateDailyLog_def Let_def)

lemma updateMoodLog_local:
  "localMoodLogs (fst (updateMoodLog c h dt ms mo)) =
     (if findIndex (\<lambda>l. mdate l = dt) (localMoodLogs h) \<ge> 0
      then (localMoodLogs h)
             [nat (findIndex (\<lambda>l. mdate l = dt) (localMoodLogs h)) :=
                \<lparr>mdate = dt, moodScore = ms, motivationScore = mo\<rparr>]
      else localMoodLogs h @ [\<lparr>mdate = dt, moodScore = ms, motivationScore = mo\<rparr>])"
  by (simp add: updateMoodLog_def Let_def)

lemma updateDailyLog_for:
  "dailyFor dt hid (localDailyLogs (fst (updateDailyLog c h dt hid b))) =
     \<lparr>date = dt, habitId = hid, completed = b\<rparr> # tl (dailyFor dt hid (localDailyLogs h))"
  unfolding updateDailyLog_local dailyFor_def
  by (rule upsert_filter) simp

lemma updateMoodLog_for:
  "moodFor dt (localMoodLogs (fst (updateMoodLog c h dt ms mo))) =
     \<lparr>mdate = dt, moodScore = ms, motivationScore = mo\<rparr> # tl (moodFor dt (localMoodLogs h))"
  unfolding updateMoodLog_local moodFor_def
  by (rule upsert_filter) simp

subsection \<open>Mood writes\<close>

lemma currentMoodOf_date: "mdate (currentMoodOf tdy logs) = tdy"
  by (auto simp: currentMoodOf_def find_Some_iff split: option.splits)

lemma currentMoodOf_single: "moodFor tdy logs = [m] \<Longrightarrow> currentMoodOf tdy logs = m"
  by (simp add: currentMoodOf_def moodFor_def find_filter_conv)

lemma written_date: "mdate (written k v m) = mdate m"
  by (simp add: written_def)

lemma handleMoodChange_state:
  "fst (handleMoodChange config tdy k v app) =
     reducer (fst app) (UPDATE_MOOD (written k v (currentMoodOf tdy (moodLogs (fst app)))))"
  by (simp add: handleMoodChange_def currentMoodOf_def written_def Let_def)

lemma handleMoodChange_for:
  "moodFor tdy (moodLogs (fst (handleMoodChange config tdy k v app))) =
     [written k v (currentMoodOf tdy (moodLogs (fst app)))]"
proof -
  have "mdate (written k v (currentMoodOf tdy (moodLogs (fst app)))) = tdy"
    by (simp add: written_date currentMoodOf_date)
  then show ?thesis
    unfolding handleMoodChange_state by (simp add: moodFor_def Let_def)
qed

text \<open>The store keeps the same record as the state, at the place of the first one it had.\<close>

lemma handleMoodChange_store:
  "moodFor tdy (localMoodLogs (snd (handleMoodChange config tdy k v app))) =
     written k v (currentMoodOf tdy (moodLogs (fst app)))
       # tl (moodFor tdy (localMoodLogs (snd app)))"
proof -
  let ?m = "written k v (currentMoodOf tdy (moodLogs (fst app)))"
  have "mdate ?m = tdy"
    by (simp add: written_date currentMoodOf_date)
  then have m: "\<lparr>mdate = tdy, moodScore = moodScore ?m, motivationScore = motivationScore ?m\<rparr> = ?m"
    by (cases ?m) auto
  have "snd (handleMoodChange config tdy k v app) =
          fst (updateMoodLog config (snd app) tdy (moodScore ?m) (motivationScore ?m))"
    by (simp add: handleMoodChange_def currentMoodOf_def written_def Let_def)
  then show ?thesis
    by (simp add: updateMoodLog_for m)
qed

lemma currentMoodOf_head: "moodFor tdy logs = m # r \<Longrightarrow> currentMoodOf tdy logs = m"
  by (simp add: currentMoodOf_def moodFor_def find_filter_conv)

lemma syncEffect_moodLogs: "moodLogs (fst (syncEffect app)) = localMoodLogs (snd app)"
  by (simp add: syncEffect_def hookData_def)

lemma syncEffect_snd: "snd (syncEffect app) = snd app"
  by (simp add: syncEffect_def)

lemma moodWrite_store:
  "moodFor tdy (localMoodLogs (snd (moodWrite config tdy k v app))) =
     written k v (currentMoodOf tdy (moodLogs (fst app)))
       # tl (moodFor tdy (localMoodLogs (snd app)))"
  by (simp add: moodWrite_def syncEffect_snd handleMoodChange_store)

lemma moodWrite_synced:
  "moodLogs (fst (moodWrite config tdy k v app)) =
     localMoodLogs (snd (moodWrite config tdy k v app))"
  by (simp add: moodWrite_def syncEffect_moodLogs syncEffect_snd)

lemma setMoodAll_snoc:
  "setMoodAll config tdy (ws @ [w]) app =
     moodWrite config tdy (fst w) (snd w) (setMoodAll config tdy ws app)"
  by (simp add: setMoodAll_def)

lemma lastWrite_snoc:
  "lastWrite k (ws @ [w]) = (if fst w = k then Some (snd w) else lastWrite k ws)"
  by (simp add: lastWrite_def Let_def)

lemma afterWrites_Nil: "afterWrites cur [] = cur"
  by (simp add: afterWrites_def lastWrite_def)

lemma afterWrites_snoc:
  "afterWrites cur (ws @ [w]) = written (fst w) (snd w) (afterWrites cur ws)"
  by (cases "fst w") (simp_all add: afterWrites_def lastWrite_snoc written_def)

text \<open>
  After a non-empty sequence of writes the state holds the store's list, and the store's
  records of the day are the record the writes built, then the records the store had
  for the day before the sequence but the first.
\<close>

lemma setMoodAll_store:
  assumes "ws \<noteq> []"
  shows "moodLogs (fst (setMoodAll config tdy ws app)) =
           localMoodLogs (snd (setMoodAll config tdy ws app))
         \<and> moodFor tdy (localMoodLogs (snd (setMoodAll config tdy ws app))) =
             afterWrites (currentMoodOf tdy (moodLogs (fst app))) ws
               # tl (moodFor tdy (localMoodLogs (snd app)))"
  using assms
proof (induction ws rule: rev_induct)
  case Nil
  then show ?case by simp
next
  case (snoc w ws)
  let ?cur = "currentMoodOf tdy (moodLogs (fst app))"
  let ?F = "setMoodAll config tdy ws app"
  have synced: "moodLogs (fst (setMoodAll config tdy (ws @ [w]) app)) =
                  localMoodLogs (snd (setMoodAll config tdy (ws @ [w]) app))"
    unfolding setMoodAll_snoc by (rule moodWrite_synced)
  have store: "moodFor tdy (localMoodLogs (snd (setMoodAll config tdy (ws @ [w]) app))) =
                 afterWrites ?cur (ws @ [w]) # tl (moodFor tdy (localMoodLogs (snd app)))"
  proof (cases "ws = []")
    case True
    then have "?F = app"
      by (simp add: setMoodAll_def)
    then show ?thesis
      unfolding setMoodAll_snoc moodWrite_store afterWrites_snoc
      by (simp add: True afterWrites_Nil)
  next
    case False
    then have ih1: "moodLogs (fst ?F) = localMoodLogs (snd ?F)"
      and ih2: "moodFor tdy (localMoodLogs (snd ?F)) =
                  afterWrites ?cur ws # tl (moodFor tdy (localMoodLogs (snd app)))"
      using snoc.IH by simp_all
    have "currentMoodOf tdy (moodLogs (fst ?F)) = afterWrites ?cur ws"
      unfolding ih1 using ih2 by (rule currentMoodOf_head)
    then show ?thesis
      unfolding setMoodAll_snoc moodWrite_store afterWrites_snoc
      by (simp add: ih2)
  qed
  from synced store show ?case ..
qed

subsection \<open>Rates and the streak loop\<close>

lemma counted_iff:
  "counted isoOf s i \<longleftrightarrow> habits s \<noteq> [] \<and> length (habits s) \<le> completedOn s (isoOf i)"
  by (auto simp: counted_def dayRate_def js_div_def completedOn_def Let_def)

lemma streakLoop_from:
  "1 \<le> i \<Longrightarrow> streakLoop isoOf s i k = k + length (takeWhile (counted isoOf s) [i..<365])"
proof (induction isoOf s i k rule: streakLoop.induct)
  case (1 isoOf s i k)
  show ?case
  proof (cases "i < 365")
    case False
    then show ?thesis by (simp add: streakLoop.simps [of isoOf s i k])
  next
    case True
    then have upt: "[i..<365] = i # [i + 1..<365]"
      by (simp add: upt_conv_Cons)
    show ?thesis
    proof (cases "counted isoOf s i")
      case c: True
      then have ge: "js_ge (dayRate isoOf s i) 1"
        by (simp add: counted_def)
      have "streakLoop isoOf s i k = streakLoop isoOf s (i + 1) (k + 1)"
        using True ge by (simp add: streakLoop.simps [of isoOf s i k])
      also have "\<dots> = (k + 1) + length (takeWhile (counted isoOf s) [i + 1..<365])"
        using "1.IH"(1) [OF True ge] by simp
      finally show ?thesis using c by (simp add: upt)
    next
      case c: False
      then have ge: "\<not> js_ge (dayRate isoOf s i) 1"
        by (simp add: counted_def)
      have "streakLoop isoOf s i k = k"
        using True "1.prems" ge by (simp add: streakLoop.simps [of isoOf s i k])
      then show ?thesis using c by (simp add: upt)
    qed
  qed
qed

lemma streakLoop_start:
  "streakLoop isoOf s 0 0 =
     (if counted isoOf s 0 then 1 else 0) + length (takeWhile (counted isoOf s) [1..<365])"
  by (simp add: streakLoop.simps [of isoOf s 0 0] streakLoop_from counted_def)

lemma takeWhile_upt_le: "length (takeWhile P [1..<365]) \<le> 364"
  using length_takeWhile_le [of P "[1..<365]"] by simp

lemma rate_formula:
  "habits s \<noteq> [] \<Longrightarrow>
   completionRate s d = Finite (real (completedOn s d) / real (length (habits s)) * 100)"
  by (simp add: completionRate_def completedOn_def js_div_def)

lemma rate_empty: "habits s = [] \<Longrightarrow> completionRate s d = Finite 0"
  by (simp add: completionRate_def)

lemma rate_same: "getDayData s d = completionRate s d"
  by (simp add: completionRate_def getDayData_def)

lemma rate_le:
  assumes "completedOn s d \<le> length (habits s)" "habits s \<noteq> []"
  shows "real (completedOn s d) / real (length (habits s)) * 100 \<le> 100"
proof -
  have "0 < real (length (habits s))"
    using assms(2) by simp
  moreover have "real (completedOn s d) \<le> real (length (habits s))"
    using assms(1) by simp
  ultimately show ?thesis
    by (simp add: field_simps)
qed

text \<open>
  A state whose daily logs hold at most one record per key and name catalog habits only
  has at most as many completed records on a day as it has habits.
\<close>

lemma completedOn_bound:
  assumes "distinct (map (\<lambda>l. (date l, habitId l)) (dailyLogs s))"
    and "\<forall>l \<in> set (dailyLogs s). habitId l \<in> Habit.id ` set (habits s)"
  shows "completedOn s d \<le> length (habits s)"
proof -
  let ?ls = "filter (\<lambda>l. date l = d \<and> completed l) (dailyLogs s)"
  have "distinct (map (\<lambda>l. (date l, habitId l)) ?ls)"
    using assms(1) by (rule distinct_map_filter)
  then have "inj_on (\<lambda>l. (date l, habitId l)) (set ?ls)" and dl: "distinct ?ls"
    by (simp_all add: distinct_map)
  then have "inj_on habitId (set ?ls)"
    by (auto simp: inj_on_def)
  with dl have "distinct (map habitId ?ls)"
    by (simp add: distinct_map)
  then have "length ?ls = card (set (map habitId ?ls))"
    using distinct_card [of "map habitId ?ls"] by simp
  also have "\<dots> \<le> card (Habit.id ` set (habits s))"
    using assms(2) by (intro card_mono) auto
  also have "\<dots> \<le> length (habits s)"
    by (metis card_image_le card_length le_trans List.finite_set)
  finally show ?thesis by (simp add: completedOn_def)
qed

lemma counted_rate: "counted isoOf s i \<longleftrightarrow> js_ge (completionRate s (isoOf i)) 100"
proof (cases "habits s = []")
  case True
  then show ?thesis
    by (simp add: counted_def dayRate_def completionRate_def)
next
  case False
  then have "0 < real (length (habits s))"
    by simp
  then have "1 \<le> real c / real (length (habits s))
      \<longleftrightarrow> 100 \<le> real c / real (length (habits s)) * 100" for c
    by (simp add: pos_le_divide_eq)
  with False show ?thesis
    by (simp add: counted_def dayRate_def completionRate_def js_div_def)
qed

subsection \<open>Fetching\<close>

lemma fetch_data: "fst (fetchData c h) = hookData h"
  by (simp add: fetchData_def simulateFetch_def Let_def)

lemma fetch_keeps: "hookData (fst (snd (fetchData c h))) = hookData h"
  by (simp add: fetchData_def simulateFetch_def Let_def hookData_def)

section \<open>Toggling a habit\<close>

text \<open>
  C1. Take a date and a habit id, and a state with no daily log for that key. After any
  number \<open>n > 0\<close> of \<open>TOGGLE_HABIT\<close> actions for the key, the state holds exactly
  one daily log with the key, and its \<open>completed\<close> field is the parity of \<open>n\<close>:
  true after an odd number of toggles (so after the first), false after an even number.
\<close>

theorem toggle_parity:
  assumes "dailyFor dt hid (dailyLogs s) = []" and "0 < n"
  shows "dailyFor dt hid (dailyLogs (dispatchAll s (replicate n (TOGGLE_HABIT dt hid)))) =
           [\<lparr>date = dt, habitId = hid, completed = odd n\<rparr>]"
  using assms(2)
proof (induction n)
  case 0
  then show ?case by simp
next
  case (Suc n)
  have snoc: "replicate (Suc n) (TOGGLE_HABIT dt hid) =
                replicate n (TOGGLE_HABIT dt hid) @ [TOGGLE_HABIT dt hid]"
    by (simp add: replicate_append_same)
  show ?case
  proof (cases "n = 0")
    case True
    then show ?thesis
      using assms(1) toggle_dailyFor [of dt hid s] by (simp add: dispatchAll_def)
  next
    case False
    then have ih: "dailyFor dt hid (dailyLogs (dispatchAll s (replicate n (TOGGLE_HABIT dt hid))))
                     = [\<lparr>date = dt, habitId = hid, completed = odd n\<rparr>]"
      using Suc.IH by simp
    show ?thesis
      unfolding snoc dispatchAll_snoc toggle_dailyFor ih by simp
  qed
qed

theorem toggle_parity_witness:
  "dailyFor ''2026-01-03'' ''A'' (dailyLogs (initialState 0)) = []
   \<and> (0::nat) < 3
   \<and> dailyFor ''2026-01-03'' ''A''
        (dailyLogs (dispatchAll (initialState 0) (replicate 3 (TOGGLE_HABIT ''2026-01-03'' ''A''))))
      = [\<lparr>date = ''2026-01-03'', habitId = ''A'', completed = True\<rparr>]"
proof -
  have none: "dailyFor ''2026-01-03'' ''A'' (dailyLogs (initialState 0)) = []"
    by (simp add: dailyFor_def initialState_def)
  have pos: "(0::nat) < 3"
    by simp
  show ?thesis
    using none pos toggle_parity [OF none pos] by simp
qed

section \<open>One record per key\<close>

text \<open>
  The store upserts find the first record of the key and overwrite it where it stands.
  On a store that holds two records for a key, \<open>updateDailyLog\<close> and \<open>updateMoodLog\<close>
  leave two.
\<close>

theorem store_upsert_keeps_duplicates:
  "length (dailyFor ''2026-01-03'' ''A''
      (localDailyLogs (fst (updateDailyLog localConfig duplicateHook ''2026-01-03'' ''A'' True)))) = 2
   \<and> length (moodFor ''2026-01-03''
      (localMoodLogs (fst (updateMoodLog localConfig duplicateHook ''2026-01-03'' 7 6)))) = 2"
  by code_simp

text \<open>
  C2, as amended. The reducer actions \<open>TOGGLE_HABIT\<close> and \<open>UPDATE_MOOD\<close> remove every
  prior record of the key and push one: afterwards the collection holds exactly one
  record for the key, however many it held before. The store upserts \<open>updateDailyLog\<close>
  and \<open>updateMoodLog\<close> overwrite the first record of the key in place and keep the
  later ones, or push when there is none: afterwards the records of the key are the new
  record followed by all the prior ones but the first.
\<close>

theorem log_mutations_per_key:
  "length (dailyFor dt hid (dailyLogs (reducer s (TOGGLE_HABIT dt hid)))) = 1
   \<and> length (moodFor (mdate m) (moodLogs (reducer s (UPDATE_MOOD m)))) = 1
   \<and> dailyFor dt hid (localDailyLogs (fst (updateDailyLog c h dt hid b))) =
       \<lparr>date = dt, habitId = hid, completed = b\<rparr> # tl (dailyFor dt hid (localDailyLogs h))
   \<and> moodFor dt (localMoodLogs (fst (updateMoodLog c h dt ms mo))) =
       \<lparr>mdate = dt, moodScore = ms, motivationScore = mo\<rparr> # tl (moodFor dt (localMoodLogs h))"
  unfolding toggle_dailyFor update_mood_for updateDailyLog_for updateMoodLog_for
  by simp

section \<open>Mood writes\<close>

text \<open>
  The app mounted on a store that holds two mood logs for the current day: after one
  change of the mood slider the state holds two mood logs for that day.
\<close>

theorem mood_write_keeps_duplicates:
  "length (moodFor ''2026-01-03''
     (moodLogs (fst (setMoodAll localConfig ''2026-01-03'' [(Kind_mood, 7)]
        (mounted 0 duplicateHook))))) = 2"
  by code_simp

text \<open>
  C3, as amended. Take any non-empty sequence of slider changes made through
  \<open>handleMoodChange\<close> for the current day, each followed by the effect that copies the
  store into the state. Afterwards the state's mood logs are the store's, and its
  records of the day are one record that carries the most recent value written to each
  score (for a score never written, the score current before the sequence), followed by
  the records the store held for the day before the sequence but the first. So the state
  holds exactly one mood log for the day whenever the store held at most one before. In
  particular one write of the mood score leaves the motivation score at the value it had.
\<close>

theorem mood_writes_latest:
  "(ws \<noteq> [] \<longrightarrow>
      moodFor tdy (moodLogs (fst (setMoodAll config tdy ws app))) =
        \<lparr>mdate = tdy,
         moodScore = (case lastWrite Kind_mood ws of Some v \<Rightarrow> v
                      | None \<Rightarrow> moodScore (currentMoodOf tdy (moodLogs (fst app)))),
         motivationScore = (case lastWrite Kind_motivation ws of Some v \<Rightarrow> v
                      | None \<Rightarrow> motivationScore (currentMoodOf tdy (moodLogs (fst app))))\<rparr>
        # tl (moodFor tdy (localMoodLogs (snd app)))
      \<and> moodLogs (fst (setMoodAll config tdy ws app)) =
          localMoodLogs (snd (setMoodAll config tdy ws app)))
   \<and> (ws \<noteq> [] \<and> length (moodFor tdy (localMoodLogs (snd app))) \<le> 1 \<longrightarrow>
      moodFor tdy (moodLogs (fst (setMoodAll config tdy ws app))) =
        [\<lparr>mdate = tdy,
          moodScore = (case lastWrite Kind_mood ws of Some v \<Rightarrow> v
                       | None \<Rightarrow> moodScore (currentMoodOf tdy (moodLogs (fst app)))),
          motivationScore = (case lastWrite Kind_motivation ws of Some v \<Rightarrow> v
                       | None \<Rightarrow> motivationScore (currentMoodOf tdy (moodLogs (fst app))))\<rparr>])
   \<and> moodFor tdy (moodLogs (fst (moodWrite config tdy Kind_mood x app))) =
        \<lparr>mdate = tdy, moodScore = x,
         motivationScore = motivationScore (currentMoodOf tdy (moodLogs (fst app)))\<rparr>
        # tl (moodFor tdy (localMoodLogs (snd app)))"
proof -
  let ?cur = "currentMoodOf tdy (moodLogs (fst app))"
  let ?new = "\<lparr>mdate = tdy,
         moodScore = (case lastWrite Kind_mood ws of Some v \<Rightarrow> v | None \<Rightarrow> moodScore ?cur),
         motivationScore = (case lastWrite Kind_motivation ws of Some v \<Rightarrow> v
                            | None \<Rightarrow> motivationScore ?cur)\<rparr>"
  have new: "afterWrites ?cur ws = ?new"
    by (simp add: afterWrites_def currentMoodOf_date)
  have general: "moodFor tdy (moodLogs (fst (setMoodAll config tdy ws app))) =
        ?new # tl (moodFor tdy (localMoodLogs (snd app)))
      \<and> moodLogs (fst (setMoodAll config tdy ws app)) =
          localMoodLogs (snd (setMoodAll config tdy ws app))" if "ws \<noteq> []"
    using setMoodAll_store [OF that, of config tdy app] by (simp add: new)
  have one: "moodFor tdy (moodLogs (fst (setMoodAll config tdy ws app))) = [?new]"
    if "ws \<noteq> []" "length (moodFor tdy (localMoodLogs (snd app))) \<le> 1"
  proof -
    have "tl (moodFor tdy (localMoodLogs (snd app))) = []"
      using that(2) by (cases "moodFor tdy (localMoodLogs (snd app))") simp_all
    then show ?thesis
      using general [OF that(1), THEN conjunct1] by simp
  qed
  have "mdate ?cur = tdy"
    by (rule currentMoodOf_date)
  then have "written Kind_mood x ?cur =
      \<lparr>mdate = tdy, moodScore = x, motivationScore = motivationScore ?cur\<rparr>"
    by (cases ?cur) (simp add: written_def)
  then have single: "moodFor tdy (moodLogs (fst (moodWrite config tdy Kind_mood x app))) =
        \<lparr>mdate = tdy, moodScore = x, motivationScore = motivationScore ?cur\<rparr>
        # tl (moodFor tdy (localMoodLogs (snd app)))"
    by (simp add: moodWrite_synced moodWrite_store)
  from general one single show ?thesis by blast
qed

theorem mood_writes_latest_witness:
  "[(Kind_mood, 7), (Kind_mood, 8)] \<noteq> []
   \<and> length (moodFor ''2026-01-03'' (localMoodLogs (snd (mounted 0 singleHook)))) \<le> 1
   \<and> moodFor ''2026-01-03''
        (moodLogs (fst (setMoodAll localConfig ''2026-01-03''
           [(Kind_mood, 7), (Kind_mood, 8)] (mounted 0 singleHook))))
      = [\<lparr>mdate = ''2026-01-03'', moodScore = 8, motivationScore = 6\<rparr>]"
proof -
  have store: "moodFor ''2026-01-03'' (localMoodLogs (snd (mounted 0 singleHook))) =
                 [\<lparr>mdate = ''2026-01-03'', moodScore = 4, motivationScore = 6\<rparr>]"
    by code_simp
  have cur: "currentMoodOf ''2026-01-03'' (moodLogs (fst (mounted 0 singleHook))) =
               \<lparr>mdate = ''2026-01-03'', moodScore = 4, motivationScore = 6\<rparr>"
    by code_simp
  have ne: "[(Kind_mood, 7), (Kind_mood, 8)] \<noteq> []"
    by simp
  have le: "length (moodFor ''2026-01-03'' (localMoodLogs (snd (mounted 0 singleHook)))) \<le> 1"
    by (simp add: store)
  show ?thesis
    using ne le cur
      mood_writes_latest [of "[(Kind_mood, 7), (Kind_mood, 8)]" "''2026-01-03''" localConfig
        "mounted 0 singleHook", THEN conjunct2, THEN conjunct1]
    by (simp add: lastWrite_def)
qed

section \<open>The streak\<close>

text \<open>
  A day whose completion rate is 200 percent is counted: in \<open>overfullState\<close> the one
  catalog habit and a habit outside the catalog are both completed on the current day,
  and the streak is 1.
\<close>

theorem streak_counts_overfull_day:
  "completionRate overfullState (exampleDays 0) = Finite 200
   \<and> snd (stats exampleDays overfullState) = 1"
  by code_simp

text \<open>
  C4, as amended. The streak loop walks backward from the current day over at most 365
  days. It counts a day exactly when that day's completion rate is at least 100 percent.
  It stops at the first day other than the current one that it does not count; the
  current day, when not counted, does not stop the walk. So the streak is 1 or 0 for
  the current day plus the length of the run of counted days that starts at the day
  before. With habits A and B, both completed on day 0 and day -1 and only A completed
  on day -2, the streak is 2.
\<close>

theorem streak_walk:
  "snd (stats isoOf s) =
     (if counted isoOf s 0 then 1 else 0) + length (takeWhile (counted isoOf s) [1..<365])
   \<and> snd (stats isoOf s) \<le> 365
   \<and> (counted isoOf s i \<longleftrightarrow> js_ge (completionRate s (isoOf i)) 100)
   \<and> snd (stats exampleDays streakScenario) = 2"
proof -
  have walk: "snd (stats isoOf s) =
     (if counted isoOf s 0 then 1 else 0) + length (takeWhile (counted isoOf s) [1..<365])"
    by (simp add: stats_def Let_def streakLoop_start)
  have bound: "snd (stats isoOf s) \<le> 365"
    unfolding walk using takeWhile_upt_le [of "counted isoOf s"] by simp
  have rate: "counted isoOf s i \<longleftrightarrow> js_ge (completionRate s (isoOf i)) 100"
    by (rule counted_rate)
  have scenario: "snd (stats exampleDays streakScenario) = 2"
    by code_simp
  from walk bound rate scenario show ?thesis by blast
qed

section \<open>Completion rate\<close>

text \<open>
  In \<open>overfullState\<close> two completed records stand against one habit: the rate of the
  day is 200.
\<close>

theorem rate_above_100:
  "completionRate overfullState ''2026-01-03'' = Finite 200
   \<and> getDayData overfullState ''2026-01-03'' = Finite 200"
  by code_simp

text \<open>
  C5, as amended. With a non-empty catalog the completion rate of a date is the number
  of completed daily logs of that date, divided by the number of habits, times 100;
  with an empty catalog it is 0. \<open>TodayView\<close> and \<open>CalendarView\<close> compute the same
  rate. It is always a finite number, never \<open>NaN\<close>, and never below 0; it is at most
  100 whenever the date has no more completed logs than the catalog has habits.
\<close>

theorem rate_formula_bounds:
  "(habits s \<noteq> [] \<longrightarrow>
      completionRate s d = Finite (real (completedOn s d) / real (length (habits s)) * 100))
   \<and> (habits s = [] \<longrightarrow> completionRate s d = Finite 0)
   \<and> getDayData s d = completionRate s d
   \<and> completionRate s d \<noteq> NaN
   \<and> (\<exists>r. completionRate s d = Finite r \<and> 0 \<le> r
          \<and> (completedOn s d \<le> length (habits s) \<longrightarrow> r \<le> 100))"
proof (cases "habits s = []")
  case True
  then show ?thesis
    by (simp add: rate_empty rate_same)
next
  case False
  then show ?thesis
    using rate_le [of s d] by (simp add: rate_formula rate_same)
qed

theorem rate_formula_bounds_witness:
  "habits streakScenario \<noteq> []
   \<and> completedOn streakScenario ''2026-01-01'' \<le> length (habits streakScenario)
   \<and> completionRate streakScenario ''2026-01-01'' = Finite 50
   \<and> habits (initialState 0) = []
   \<and> completionRate (initialState 0) ''2026-01-01'' = Finite 0"
proof -
  have n: "length (habits streakScenario) = 2"
    by code_simp
  have c: "completedOn streakScenario ''2026-01-01'' = 1"
    by code_simp
  have e: "habits (initialState 0) = []"
    by (simp add: initialState_def)
  from n have ne: "habits streakScenario \<noteq> []"
    by auto
  show ?thesis
    using n c e ne rate_formula_bounds [of streakScenario "''2026-01-01''"]
      rate_formula_bounds [of "initialState 0" "''2026-01-01''"]
    by simp
qed

section \<open>Calendar cells\<close>

text \<open>
  C6. The tier of a calendar cell is a function of the day's rate alone: a rate of at
  least 80 is the full tier, a rate below 80 and at least 40 is partial-high, a rate
  below 40 and above 0 is partial-low, and the rate 0 is empty. So 85 is full, 50 is
  partial-high, 10 is partial-low and 0 is empty.
\<close>

theorem cell_bands:
  "(80 \<le> r \<longrightarrow> cellTier (Finite r) = Tier_full)
   \<and> (40 \<le> r \<and> r < 80 \<longrightarrow> cellTier (Finite r) = Tier_partial_high)
   \<and> (0 < r \<and> r < 40 \<longrightarrow> cellTier (Finite r) = Tier_partial_low)
   \<and> (r = 0 \<longrightarrow> cellTier (Finite r) = Tier_empty)
   \<and> cellTier (Finite 85) = Tier_full
   \<and> cellTier (Finite 50) = Tier_partial_high
   \<and> cellTier (Finite 10) = Tier_partial_low
   \<and> cellTier (Finite 0) = Tier_empty"
  by (simp add: cellTier_def)

theorem cell_bands_witness:
  "(80::real) \<le> 92 \<and> cellTier (Finite 92) = Tier_full
   \<and> (40::real) \<le> 79 \<and> (79::real) < 80 \<and> cellTier (Finite 79) = Tier_partial_high
   \<and> (0::real) < 39 \<and> (39::real) < 40 \<and> cellTier (Finite 39) = Tier_partial_low
   \<and> cellTier (Finite 0) = Tier_empty"
  using cell_bands [of 92] cell_bands [of 79] cell_bands [of 39] cell_bands [of 0]
  by simp

section \<open>Configuration and fetching\<close>

text \<open>
  C7. The hook is configured exactly when the spreadsheet id and the API key are both
  non-empty. When either is empty, \<open>fetchData\<close> returns the current local collections:
  the habits, the daily logs and the mood logs it returns are the hook's local ones.
  The only effects it has are the two flag writes, the 500 ms timer and the flag write
  of the timer: no network request.
\<close>

theorem unconfigured_fetch_local:
  "(hasConfig c \<longleftrightarrow> spreadsheetId c \<noteq> [] \<and> apiKey c \<noteq> [])
   \<and> (spreadsheetId c = [] \<or> apiKey c = [] \<longrightarrow>
        \<not> hasConfig c
        \<and> d_habits (fst (fetchData c h)) = localHabits h
        \<and> d_dailyLogs (fst (fetchData c h)) = localDailyLogs h
        \<and> d_moodLogs (fst (fetchData c h)) = localMoodLogs h
        \<and> fst (fetchData c h) =
            \<lparr>d_habits = localHabits h, d_dailyLogs = localDailyLogs h,
             d_moodLogs = localMoodLogs h\<rparr>
        \<and> filter isNetworkRequest (snd (snd (fetchData c h))) = []
        \<and> snd (snd (fetchData c h)) =
            [SetIsLoading True, SetError None, Timer 500, SetIsLoading False])"
  by (auto simp: hasConfig_def truthy_def fetchData_def hookData_def Let_def)

theorem unconfigured_fetch_local_witness:
  "(spreadsheetId \<lparr>spreadsheetId = ''sheet-1'', apiKey = []\<rparr> = []
      \<or> apiKey \<lparr>spreadsheetId = ''sheet-1'', apiKey = []\<rparr> = [])
   \<and> \<not> hasConfig \<lparr>spreadsheetId = ''sheet-1'', apiKey = []\<rparr>
   \<and> fst (fetchData \<lparr>spreadsheetId = ''sheet-1'', apiKey = []\<rparr> duplicateHook) =
       \<lparr>d_habits = [habitA],
        d_dailyLogs = [\<lparr>date = ''2026-01-03'', habitId = ''A'', completed = False\<rparr>,
                       \<lparr>date = ''2026-01-03'', habitId = ''A'', completed = False\<rparr>],
        d_moodLogs = [\<lparr>mdate = ''2026-01-03'', moodScore = 4, motivationScore = 6\<rparr>,
                      \<lparr>mdate = ''2026-01-03'', moodScore = 2, motivationScore = 3\<rparr>]\<rparr>"
  using unconfigured_fetch_local [of "\<lparr>spreadsheetId = ''sheet-1'', apiKey = []\<rparr>" duplicateHook]
  by (simp add: duplicateHook_def)

text \<open>
  C10. What \<open>fetchData\<close> returns does not depend on the configuration: for any two
  configurations and the same hook state it returns the same data, whose habits, daily
  logs and mood logs are the hook's local ones, and it leaves the local collections as
  they were.
\<close>

theorem fetch_config_independent:
  "fst (fetchData c1 h) = fst (fetchData c2 h)
   \<and> fst (fetchData c1 h) = hookData h
   \<and> hookData (fst (snd (fetchData c1 h))) = hookData h
   \<and> d_habits (fst (fetchData c1 h)) = localHabits h
   \<and> d_dailyLogs (fst (fetchData c1 h)) = localDailyLogs h
   \<and> d_moodLogs (fst (fetchData c1 h)) = localMoodLogs h"
proof -
  have same: "fst (fetchData c1 h) = fst (fetchData c2 h)"
    by (simp add: fetch_data)
  have fields: "d_habits (fst (fetchData c1 h)) = localHabits h
      \<and> d_dailyLogs (fst (fetchData c1 h)) = localDailyLogs h
      \<and> d_moodLogs (fst (fetchData c1 h)) = localMoodLogs h"
    by (simp add: fetch_data hookData_def)
  from same fetch_data [of c1 h] fetch_keeps [of c1 h] fields show ?thesis
    by blast
qed

section \<open>Loading from storage\<close>

text \<open>
  C8. Let \<open>JSON.parse\<close> throw on the empty text, as it does. The initializer of
  \<open>useLocalStorage\<close> never raises: it returns the parsed value when the key holds text
  that parses, and the given initial value, as it is, when the key is missing, when its
  text does not parse, and when the storage itself throws.
\<close>

theorem load_never_raises:
  assumes "isl (parse [])"
  shows "(\<exists>v. useLocalStorage_init parse st key d = Inr v)
    \<and> (getItem st key = Inr (Some item) \<and> parse item = Inr v \<longrightarrow>
         useLocalStorage_init parse st key d = Inr v)
    \<and> (getItem st key = Inr None \<longrightarrow> useLocalStorage_init parse st key d = Inr d)
    \<and> (getItem st key = Inr (Some item) \<and> parse item = Inl e \<longrightarrow>
         useLocalStorage_init parse st key d = Inr d)
    \<and> (getItem st key = Inl e \<longrightarrow> useLocalStorage_init parse st key d = Inr d)"
proof -
  have total: "\<exists>v. useLocalStorage_init parse st key d = Inr v"
    by (simp add: useLocalStorage_init_def split: sum.splits)
  have hit: "useLocalStorage_init parse st key d = Inr v"
    if "getItem st key = Inr (Some item)" "parse item = Inr v"
  proof -
    from that(2) assms have "item \<noteq> []" by auto
    with that show ?thesis
      by (simp add: useLocalStorage_init_def useLocalStorage_try_def)
  qed
  have miss: "useLocalStorage_init parse st key d = Inr d" if "getItem st key = Inr None"
    using that by (simp add: useLocalStorage_init_def useLocalStorage_try_def)
  have corrupt: "useLocalStorage_init parse st key d = Inr d"
    if "getItem st key = Inr (Some item)" "parse item = Inl e"
    using that by (simp add: useLocalStorage_init_def useLocalStorage_try_def)
  have broken: "useLocalStorage_init parse st key d = Inr d" if "getItem st key = Inl e"
    using that by (simp add: useLocalStorage_init_def useLocalStorage_try_def)
  from total hit miss corrupt broken show ?thesis by blast
qed

theorem load_never_raises_witness:
  "isl (parse_bool [])
   \<and> getItem (Items [''ht_flag'' \<mapsto> ''true'']) ''ht_flag'' = Inr (Some ''true'')
   \<and> parse_bool ''true'' = Inr True
   \<and> useLocalStorage_init parse_bool (Items [''ht_flag'' \<mapsto> ''true'']) ''ht_flag'' False
       = Inr True
   \<and> getItem (Items Map.empty) ''ht_flag'' = Inr None
   \<and> useLocalStorage_init parse_bool (Items Map.empty) ''ht_flag'' False = Inr False
   \<and> getItem (Items [''ht_flag'' \<mapsto> ''{tru'']) ''ht_flag'' = Inr (Some ''{tru'')
   \<and> parse_bool ''{tru'' = Inl SyntaxError
   \<and> useLocalStorage_init parse_bool (Items [''ht_flag'' \<mapsto> ''{tru'']) ''ht_flag'' True
       = Inr True
   \<and> getItem Unavailable ''ht_flag'' = Inl SecurityError
   \<and> useLocalStorage_init parse_bool Unavailable ''ht_flag'' True = Inr True"
proof -
  have p: "isl (parse_bool [])"
    by (simp add: parse_bool_def)
  show ?thesis
    using p
      load_never_raises [where parse = parse_bool and st = "Items [''ht_flag'' \<mapsto> ''true'']"
        and key = "''ht_flag''" and item = "''true''" and v = True and d = False, OF p]
      load_never_raises [where parse = parse_bool and st = "Items Map.empty"
        and key = "''ht_flag''" and d = False, OF p]
      load_never_raises [where parse = parse_bool and st = "Items [''ht_flag'' \<mapsto> ''{tru'']"
        and key = "''ht_flag''" and item = "''{tru''" and e = SyntaxError and d = True, OF p]
      load_never_raises [where parse = parse_bool and st = Unavailable
        and key = "''ht_flag''" and e = SecurityError and d = True, OF p]
    by (simp add: parse_bool_def)
qed

section \<open>Flag transitions\<close>

text \<open>
  C9. \<open>SET_LOADING\<close>, \<open>SET_SYNCING\<close> and \<open>SET_ERROR\<close> write their own flag and leave
  every other field of the state as it was: the catalog, both log collections, the
  view, the month and the two other flags.
\<close>

theorem flag_actions_frame:
  "isLoading (reducer s (SET_LOADING b)) = b
   \<and> habits (reducer s (SET_LOADING b)) = habits s
   \<and> dailyLogs (reducer s (SET_LOADING b)) = dailyLogs s
   \<and> moodLogs (reducer s (SET_LOADING b)) = moodLogs s
   \<and> currentView (reducer s (SET_LOADING b)) = currentView s
   \<and> currentMonth (reducer s (SET_LOADING b)) = currentMonth s
   \<and> isSyncing (reducer s (SET_LOADING b)) = isSyncing s
   \<and> error (reducer s (SET_LOADING b)) = error s
   \<and> isSyncing (reducer s (SET_SYNCING b)) = b
   \<and> habits (reducer s (SET_SYNCING b)) = habits s
   \<and> dailyLogs (reducer s (SET_SYNCING b)) = dailyLogs s
   \<and> moodLogs (reducer s (SET_SYNCING b)) = moodLogs s
   \<and> currentView (reducer s (SET_SYNCING b)) = currentView s
   \<and> currentMonth (reducer s (SET_SYNCING b)) = currentMonth s
   \<and> isLoading (reducer s (SET_SYNCING b)) = isLoading s
   \<and> error (reducer s (SET_SYNCING b)) = error s
   \<and> error (reducer s (SET_ERROR e)) = e
   \<and> habits (reducer s (SET_ERROR e)) = habits s
   \<and> dailyLogs (reducer s (SET_ERROR e)) = dailyLogs s
   \<and> moodLogs (reducer s (SET_ERROR e)) = moodLogs s
   \<and> currentView (reducer s (SET_ERROR e)) = currentView s
   \<and> currentMonth (reducer s (SET_ERROR e)) = currentMonth s
   \<and> isLoading (reducer s (SET_ERROR e)) = isLoading s
   \<and> isSyncing (reducer s (SET_ERROR e)) = isSyncing s"
  by simp

end
